theory Spec2Isabelle
  imports Complex_Main
begin

section \<open>Configuration constants of cell\_simulator.py\<close>

text \<open>
  Python floats are modelled as reals with exact arithmetic; Python ints as \<open>int\<close>.
  Every call of the random module is an input of the model: the value the call returns
  is supplied by the caller, one field per call site.
\<close>

definition WIDTH :: real where "WIDTH = 900"
definition HEIGHT :: real where "HEIGHT = 600"
definition FOOD_RADIUS :: int where "FOOD_RADIUS = 4"
definition INITIAL_CELLS :: nat where "INITIAL_CELLS = 8"
definition CELL_MIN_RADIUS :: int where "CELL_MIN_RADIUS = 8"
definition CELL_MAX_RADIUS :: int where "CELL_MAX_RADIUS = 18"
definition CELL_BASE_SPEED :: real where "CELL_BASE_SPEED = 1"
definition ENERGY_LOSS_PER_SEC :: real where "ENERGY_LOSS_PER_SEC = 1"
definition ENERGY_FROM_FOOD :: real where "ENERGY_FROM_FOOD = 20"
definition SPLIT_ENERGY_THRESHOLD :: real where "SPLIT_ENERGY_THRESHOLD = 60"
definition SPLIT_ENERGY_COST :: real where "SPLIT_ENERGY_COST = 30"
definition MAX_ENERGY :: real where "MAX_ENERGY = 100"
definition MAX_FOOD :: nat where "MAX_FOOD = 200"
definition CELL_SENSE_RADIUS :: real where "CELL_SENSE_RADIUS = 120"
definition CELL_MAX_TURN :: real where "CELL_MAX_TURN = 0.25"
definition margin :: real where "margin = 5"

section \<open>Library functions used by the program\<close>

text \<open>Python's \<open>a % b\<close> on floats: the result takes the sign of the divisor.\<close>

definition py_fmod :: "real \<Rightarrow> real \<Rightarrow> real" where
  "py_fmod a b = a - b * of_int \<lfloor>a / b\<rfloor>"

text \<open>Python's \<open>int(v)\<close> on a float: truncation toward zero.\<close>

definition py_int :: "real \<Rightarrow> int" where
  "py_int v = (if 0 \<le> v then \<lfloor>v\<rfloor> else \<lceil>v\<rceil>)"

text \<open>\<open>math.atan2(y, x)\<close>: the angle of the point \<open>(x, y)\<close>, in \<open>(-pi, pi]\<close>.\<close>

definition atan2 :: "real \<Rightarrow> real \<Rightarrow> real" where
  "atan2 b a =
     (if 0 < a then arctan (b / a)
      else if a < 0 \<and> 0 \<le> b then arctan (b / a) + pi
      else if a < 0 \<and> b < 0 then arctan (b / a) - pi
      else if 0 < b then pi / 2
      else if b < 0 then - (pi / 2)
      else 0)"

section \<open>Food and Cell\<close>

record food =
  food_x :: real
  food_y :: real

definition Food :: "real \<Rightarrow> real \<Rightarrow> food" where
  "Food a b = \<lparr>food_x = a, food_y = b\<rparr>"

record cell =
  cell_x :: real
  cell_y :: real
  radius :: int
  base_radius :: int
  angle :: real
  speed :: real
  energy :: real
  color :: "int \<times> int \<times> int"
  trail :: "(real \<times> real) list"
  time_offset :: real

text \<open>The random values drawn by \<open>Cell.__init__\<close>, one field per call of the random module.\<close>

record init_draws =
  rnd_radius :: int         \<comment> \<open>\<open>random.randint(CELL_MIN_RADIUS, CELL_MAX_RADIUS)\<close>\<close>
  rnd_angle01 :: real       \<comment> \<open>\<open>random.random()\<close>\<close>
  rnd_energy :: real        \<comment> \<open>\<open>random.uniform(20, 50)\<close>\<close>
  rnd_color :: "int \<times> int \<times> int"  \<comment> \<open>three \<open>random.randint(80, 255)\<close>\<close>
  rnd_time_offset :: real   \<comment> \<open>\<open>random.uniform(0, 2 * math.pi)\<close>\<close>

text \<open>
  \<open>Cell.__init__(x, y, radius=None)\<close>. The test \<open>radius if radius else ...\<close> takes the
  random radius for \<open>None\<close> and for \<open>0\<close>. The trail is an empty \<open>deque(maxlen=8)\<close>.
\<close>

definition Cell :: "real \<Rightarrow> real \<Rightarrow> int option \<Rightarrow> init_draws \<Rightarrow> cell" where
  "Cell a b rad d =
     (let r = (case rad of None \<Rightarrow> rnd_radius d
               | Some v \<Rightarrow> if v \<noteq> 0 then v else rnd_radius d)
      in \<lparr>cell_x = a, cell_y = b,
          radius = r,
          base_radius = r,
          angle = rnd_angle01 d * 2 * pi,
          speed = CELL_BASE_SPEED *
                  (1 + of_int (CELL_MAX_RADIUS - r) / of_int (CELL_MAX_RADIUS * 2)),
          energy = rnd_energy d,
          color = rnd_color d,
          trail = [],
          time_offset = rnd_time_offset d\<rparr>)"

section \<open>Cell.update\<close>

text \<open>The random values \<open>Cell.update\<close> may draw: the wander step and the four wall bounces.\<close>

record update_draws =
  rnd_wander :: real   \<comment> \<open>\<open>random.uniform(-0.02, 0.02)\<close>\<close>
  rnd_left :: real     \<comment> \<open>\<open>random.uniform(-math.pi/2, math.pi/2)\<close>\<close>
  rnd_right :: real    \<comment> \<open>\<open>random.uniform(math.pi/2, 3*math.pi/2)\<close>\<close>
  rnd_top :: real      \<comment> \<open>\<open>random.uniform(0, math.pi)\<close>\<close>
  rnd_bottom :: real   \<comment> \<open>\<open>random.uniform(-math.pi, 0)\<close>\<close>

definition draws_in_range :: "update_draws \<Rightarrow> bool" where
  "draws_in_range d \<longleftrightarrow>
     - 0.02 \<le> rnd_wander d \<and> rnd_wander d \<le> 0.02 \<and>
     - (pi / 2) \<le> rnd_left d \<and> rnd_left d \<le> pi / 2 \<and>
     pi / 2 \<le> rnd_right d \<and> rnd_right d \<le> 3 * pi / 2 \<and>
     0 \<le> rnd_top d \<and> rnd_top d \<le> pi \<and>
     - pi \<le> rnd_bottom d \<and> rnd_bottom d \<le> 0"

text \<open>Lines 90-92: energy decay, then the clamp at \<open>MAX_ENERGY\<close>.\<close>

definition decay :: "real \<Rightarrow> cell \<Rightarrow> cell" where
  "decay dt c =
     (let c1 = c\<lparr>energy := energy c - ENERGY_LOSS_PER_SEC * dt\<rparr>
      in if energy c1 > MAX_ENERGY then c1\<lparr>energy := MAX_ENERGY\<rparr> else c1)"

text \<open>
  Lines 95-101: the scan for the nearest food within the sense radius. The accumulator is
  the pair \<open>(min_d, target)\<close>; \<open>None\<close> stands for \<open>min_d = inf\<close>, \<open>target = None\<close>.
\<close>

fun sense :: "cell \<Rightarrow> food list \<Rightarrow> (real \<times> food) option \<Rightarrow> (real \<times> food) option" where
  "sense c [] acc = acc"
| "sense c (f # fs) acc =
     (let d = (food_x f - cell_x c)\<^sup>2 + (food_y f - cell_y c)\<^sup>2
      in if (case acc of None \<Rightarrow> True | Some (min_d, t) \<Rightarrow> d < min_d)
            \<and> d \<le> CELL_SENSE_RADIUS\<^sup>2
         then sense c fs (Some (d, f))
         else sense c fs acc)"

definition find_target :: "cell \<Rightarrow> food list \<Rightarrow> food option" where
  "find_target c fs = map_option snd (sense c fs None)"

text \<open>Lines 103-109: wander without a target, bounded turn toward the target otherwise.\<close>

definition steer :: "food option \<Rightarrow> update_draws \<Rightarrow> cell \<Rightarrow> cell" where
  "steer target d c =
     (case target of
        None \<Rightarrow> c\<lparr>angle := angle c + rnd_wander d\<rparr>
      | Some t \<Rightarrow>
          (let desired = atan2 (food_y t - cell_y c) (food_x t - cell_x c);
               diff = py_fmod (desired - angle c + pi) (2 * pi) - pi;
               turn = max (- CELL_MAX_TURN) (min CELL_MAX_TURN diff)
           in c\<lparr>angle := angle c + turn\<rparr>))"

text \<open>Lines 112-113.\<close>

definition move :: "cell \<Rightarrow> cell" where
  "move c =
     (let c1 = c\<lparr>cell_x := cell_x c + cos (angle c) * speed c\<rparr>
      in c1\<lparr>cell_y := cell_y c1 + sin (angle c1) * speed c1\<rparr>)"

text \<open>Lines 116-124: four independent tests, each one clamping and redrawing the heading.\<close>

definition bounce :: "update_draws \<Rightarrow> cell \<Rightarrow> cell" where
  "bounce d c =
     (let c1 = (if cell_x c < margin
                then c\<lparr>cell_x := margin, angle := rnd_left d\<rparr> else c);
          c2 = (if cell_x c1 > WIDTH - margin
                then c1\<lparr>cell_x := WIDTH - margin, angle := rnd_right d\<rparr> else c1);
          c3 = (if cell_y c2 < margin
                then c2\<lparr>cell_y := margin, angle := rnd_top d\<rparr> else c2);
          c4 = (if cell_y c3 > HEIGHT - margin
                then c3\<lparr>cell_y := HEIGHT - margin, angle := rnd_bottom d\<rparr> else c3)
      in c4)"

text \<open>Line 127: \<open>append\<close> on a \<open>deque(maxlen=8)\<close> drops the oldest entry of a full deque.\<close>

definition trail_append :: "(real \<times> real) list \<Rightarrow> real \<times> real \<Rightarrow> (real \<times> real) list" where
  "trail_append t p = (if length t < 8 then t @ [p] else tl t @ [p])"

definition record_trail :: "cell \<Rightarrow> cell" where
  "record_trail c = c\<lparr>trail := trail_append (trail c) (cell_x c, cell_y c)\<rparr>"

text \<open>
  Lines 130-136: the first food within eating range is deleted from the list. The result
  is \<open>None\<close> when no food is in range and the list without that food otherwise.
\<close>

definition in_eating_range :: "cell \<Rightarrow> food \<Rightarrow> bool" where
  "in_eating_range c f \<longleftrightarrow>
     (let dx = food_x f - cell_x c; dy = food_y f - cell_y c
      in dx * dx + dy * dy \<le> (of_int (radius c + FOOD_RADIUS))\<^sup>2)"

fun eat_scan :: "cell \<Rightarrow> food list \<Rightarrow> food list option" where
  "eat_scan c [] = None"
| "eat_scan c (f # fs) =
     (if in_eating_range c f then Some fs
      else map_option (Cons f) (eat_scan c fs))"

datatype signal = Ate

text \<open>
  \<open>Cell.update(dt, foods, all_cells, time)\<close>. The cell and the food list are mutated in
  place by the source; the model returns both with the returned signal (\<open>None\<close> or
  \<open>"ate"\<close>). The parameters \<open>all_cells\<close> and \<open>time\<close> are never read by the source.
\<close>

definition reposition :: "real \<Rightarrow> food list \<Rightarrow> update_draws \<Rightarrow> cell \<Rightarrow> cell" where
  "reposition dt fs d c =
     (let c1 = decay dt c;
          c2 = steer (find_target c1 fs) d c1;
          c3 = move c2;
          c4 = bounce d c3
      in record_trail c4)"

definition update :: "real \<Rightarrow> food list \<Rightarrow> update_draws \<Rightarrow> cell
                       \<Rightarrow> cell \<times> food list \<times> signal option" where
  "update dt fs d c =
     (let c5 = reposition dt fs d c
      in case eat_scan c5 fs of
           Some fs' \<Rightarrow> (c5\<lparr>energy := energy c5 + ENERGY_FROM_FOOD\<rparr>, fs', Some Ate)
         | None \<Rightarrow> (c5, fs, None))"

section \<open>can\_split, split, is\_dead\<close>

definition can_split :: "cell \<Rightarrow> bool" where
  "can_split c \<longleftrightarrow>
     energy c \<ge> SPLIT_ENERGY_THRESHOLD \<and> radius c \<ge> CELL_MIN_RADIUS + 1"

text \<open>The random values drawn by a successful \<open>split\<close>.\<close>

record split_draws =
  rnd_nx :: real        \<comment> \<open>\<open>random.uniform(-self.radius*2, self.radius*2)\<close>\<close>
  rnd_ny :: real        \<comment> \<open>\<open>random.uniform(-self.radius*2, self.radius*2)\<close>\<close>
  rnd_child :: init_draws
  rnd_jitter :: "int \<times> int \<times> int"   \<comment> \<open>three \<open>random.randint(-20, 20)\<close>\<close>

definition jitter :: "int \<Rightarrow> int \<Rightarrow> int" where
  "jitter v j = min 255 (max 0 (v + j))"

text \<open>\<open>Cell.split()\<close>: the parent after the call, and the returned child or \<open>None\<close>.\<close>

definition split :: "split_draws \<Rightarrow> cell \<Rightarrow> cell \<times> cell option" where
  "split d c =
     (let child_energy = energy c / 2 - SPLIT_ENERGY_COST / 2;
          c1 = c\<lparr>energy := energy c / 2 - SPLIT_ENERGY_COST / 2\<rparr>
      in if energy c1 < 5 then (c1\<lparr>energy := energy c1 + child_energy\<rparr>, None)
         else
           (let nx = cell_x c1 + rnd_nx d;
                ny = cell_y c1 + rnd_ny d;
                child = Cell nx ny
                          (Some (max CELL_MIN_RADIUS (py_int (of_int (radius c1) * 0.9))))
                          (rnd_child d);
                child1 = child\<lparr>energy := max 5 child_energy\<rparr>;
                child2 = child1\<lparr>color :=
                           (case (color c1, rnd_jitter d) of
                              ((r, g, b), (jr, jg, jb)) \<Rightarrow>
                                (jitter r jr, jitter g jg, jitter b jb))\<rparr>
            in (c1, Some child2)))"

definition is_dead :: "cell \<Rightarrow> bool" where
  "is_dead c \<longleftrightarrow> energy c \<le> 0 \<or> radius c \<le> 0"

text \<open>
  The state change of \<open>Cell.draw(surf, time)\<close>: the breathing radius (lines 163-164).
  Everything else in \<open>draw\<close> paints the surface.
\<close>

definition draw :: "real \<Rightarrow> cell \<Rightarrow> cell" where
  "draw time c =
     (let breathe = 1 + 0.08 * sin (time * 3 + time_offset c)
      in c\<lparr>radius := py_int (of_int (base_radius c) * breathe)\<rparr>)"

section \<open>The simulation state and the main loop\<close>

record world =
  cells :: "cell list"
  foods :: "food list"
  total_births :: int
  paused :: bool
  speed_multiplier :: real
  time_accum :: real
  running :: bool

datatype key = K_SPACE | K_UP | K_DOWN | K_r | K_f | K_other

datatype event =
    QUIT
  | KEYDOWN key
  | MOUSEBUTTONDOWN int real real   \<comment> \<open>button, position\<close>
  | OTHER

text \<open>The random values an event handler may draw.\<close>

record event_draws =
  rnd_seed :: "nat \<Rightarrow> real \<times> real \<times> init_draws"
     \<comment> \<open>per new cell of a reset: \<open>uniform(50, WIDTH-50)\<close>, \<open>uniform(50, HEIGHT-50)\<close>, constructor\<close>
  rnd_food :: "nat \<Rightarrow> real \<times> real"
     \<comment> \<open>per food of the F key: \<open>uniform(20, WIDTH-20)\<close>, \<open>uniform(20, HEIGHT-20)\<close>\<close>

definition seed_cells :: "(nat \<Rightarrow> real \<times> real \<times> init_draws) \<Rightarrow> cell list" where
  "seed_cells r =
     map (\<lambda>i. case r i of (a, b, d) \<Rightarrow> Cell a b None d) [0..<INITIAL_CELLS]"

text \<open>Lines 214-232: one event of the queue.\<close>

fun handle_event :: "event_draws \<Rightarrow> event \<Rightarrow> world \<Rightarrow> world" where
  "handle_event d QUIT w = w\<lparr>running := False\<rparr>"
| "handle_event d (KEYDOWN K_SPACE) w = w\<lparr>paused := \<not> paused w\<rparr>"
| "handle_event d (KEYDOWN K_UP) w =
     w\<lparr>speed_multiplier := min 4 (speed_multiplier w + 0.25)\<rparr>"
| "handle_event d (KEYDOWN K_DOWN) w =
     w\<lparr>speed_multiplier := max 0.25 (speed_multiplier w - 0.25)\<rparr>"
| "handle_event d (KEYDOWN K_r) w =
     w\<lparr>cells := seed_cells (rnd_seed d), foods := [], total_births := 0\<rparr>"
| "handle_event d (KEYDOWN K_f) w =
     w\<lparr>foods := foods w @
                 map (\<lambda>i. case rnd_food d i of (a, b) \<Rightarrow> Food a b) [0..<10]\<rparr>"
| "handle_event d (KEYDOWN K_other) w = w"
| "handle_event d (MOUSEBUTTONDOWN button mx my) w =
     (if button = 1 then w\<lparr>foods := foods w @ [Food mx my]\<rparr> else w)"
| "handle_event d OTHER w = w"

text \<open>The random values drawn in one iteration of the per-cell pass.\<close>

record cell_draws =
  rnd_update :: update_draws
  rnd_trial :: real        \<comment> \<open>\<open>random.random()\<close> of line 249\<close>
  rnd_split :: split_draws

text \<open>
  Lines 248-255, the body of the per-cell loop: the cell after the iteration, the food
  list after it, the child to append to \<open>new_cells\<close> if any, and whether the index goes
  to \<open>dead_indices\<close>.
\<close>

definition cell_iter :: "real \<Rightarrow> cell_draws \<Rightarrow> food list \<Rightarrow> cell
                          \<Rightarrow> cell \<times> food list \<times> cell option \<times> bool" where
  "cell_iter dt d fs c =
     (case update dt fs (rnd_update d) c of
        (c1, fs', result) \<Rightarrow>
          (case (if can_split c1 \<and> rnd_trial d < 0.02 then split (rnd_split d) c1
                 else (c1, None)) of
             (c2, child) \<Rightarrow> (c2, fs', child, is_dead c2)))"

text \<open>
  Lines 245-255: the pass over \<open>enumerate(cells)\<close>, from index \<open>i\<close>. It returns the cells
  of the list as the pass leaves them, the food list, \<open>new_cells\<close>, \<open>dead_indices\<close> and
  \<open>total_births\<close>.
\<close>

fun pass_loop :: "real \<Rightarrow> (nat \<Rightarrow> cell_draws) \<Rightarrow> nat \<Rightarrow> cell list \<Rightarrow> food list
                   \<Rightarrow> cell list \<Rightarrow> nat list \<Rightarrow> int
                   \<Rightarrow> cell list \<times> food list \<times> cell list \<times> nat list \<times> int" where
  "pass_loop dt rnd i [] fs new_cells dead_indices births =
     ([], fs, new_cells, dead_indices, births)"
| "pass_loop dt rnd i (c # cs) fs new_cells dead_indices births =
     (case cell_iter dt (rnd i) fs c of
        (c', fs', child, dead) \<Rightarrow>
          (case pass_loop dt rnd (i + 1) cs fs'
                  (case child of None \<Rightarrow> new_cells | Some ch \<Rightarrow> new_cells @ [ch])
                  (if dead then dead_indices @ [i] else dead_indices)
                  (case child of None \<Rightarrow> births | Some ch \<Rightarrow> births + 1) of
             (cs', rest) \<Rightarrow> (c' # cs', rest)))"

text \<open>Lines 244-258: the update block of one frame, with \<open>dt\<close> already scaled.\<close>

definition tick_update :: "real \<Rightarrow> (nat \<Rightarrow> cell_draws) \<Rightarrow> world \<Rightarrow> world" where
  "tick_update dt rnd w =
     (if \<not> paused w then
        (case pass_loop dt rnd 0 (cells w) (foods w) [] [] (total_births w) of
           (cs, fs, new_cells, dead_indices, births) \<Rightarrow>
             (let cs' = (if dead_indices \<noteq> []
                         then map snd (filter (\<lambda>(idx, c). idx \<notin> set dead_indices)
                                         (enumerate 0 cs))
                         else cs)
              in w\<lparr>cells := cs' @ new_cells, foods := fs, total_births := births\<rparr>))
      else w)"

text \<open>
  One iteration of the main loop (lines 210-269) on the simulation state: the clock, the
  event queue, the update block and the breathing radius set by drawing.
\<close>

definition frame :: "int \<Rightarrow> (event_draws \<times> event) list \<Rightarrow> (nat \<Rightarrow> cell_draws)
                      \<Rightarrow> world \<Rightarrow> world" where
  "frame dt_ms evs rnd w =
     (let dt = (of_int dt_ms / 1000) * speed_multiplier w;
          w1 = w\<lparr>time_accum := time_accum w + dt\<rparr>;
          w2 = fold (\<lambda>(d, e). handle_event d e) evs w1;
          w3 = tick_update dt rnd w2
      in w3\<lparr>cells := map (draw (time_accum w3)) (cells w3)\<rparr>)"




section \<open>Concrete cells, foods and draws\<close>

definition sample_cell :: "real \<Rightarrow> real \<Rightarrow> real \<Rightarrow> cell" where
  "sample_cell a b e =
     \<lparr>cell_x = a, cell_y = b, radius = 10, base_radius = 10, angle = 0,
      speed = 1, energy = e, color = (100, 150, 200), trail = [], time_offset = 0\<rparr>"

definition mid_draws :: update_draws where
  "mid_draws = \<lparr>rnd_wander = 0, rnd_left = 0, rnd_right = pi,
                rnd_top = pi / 2, rnd_bottom = - (pi / 2)\<rparr>"

definition child_draws :: init_draws where
  "child_draws = \<lparr>rnd_radius = 12, rnd_angle01 = 0, rnd_energy = 30,
                  rnd_color = (90, 90, 90), rnd_time_offset = 0\<rparr>"

definition some_split_draws :: split_draws where
  "some_split_draws = \<lparr>rnd_nx = 3, rnd_ny = - 4, rnd_child = child_draws,
                       rnd_jitter = (5, - 5, 0)\<rparr>"

definition some_event_draws :: event_draws where
  "some_event_draws = \<lparr>rnd_seed = (\<lambda>i. (100, 100, child_draws)),
                        rnd_food = (\<lambda>i. (50 + real i, 60))\<rparr>"

definition crowded_world :: world where
  "crowded_world = \<lparr>cells = [], foods = replicate 201 (Food 50 50), total_births = 0,
                     paused = False, speed_multiplier = 1, time_accum = 0, running = True\<rparr>"











section \<open>Unfolding rules\<close>

lemmas config_defs =
  WIDTH_def HEIGHT_def FOOD_RADIUS_def INITIAL_CELLS_def CELL_MIN_RADIUS_def
  CELL_MAX_RADIUS_def CELL_BASE_SPEED_def ENERGY_LOSS_PER_SEC_def ENERGY_FROM_FOOD_def
  SPLIT_ENERGY_THRESHOLD_def SPLIT_ENERGY_COST_def MAX_ENERGY_def MAX_FOOD_def
  CELL_SENSE_RADIUS_def CELL_MAX_TURN_def margin_def

section \<open>Cell.split\<close>

text \<open>
  C1 (as amended): when \<open>energy/2 - SPLIT_ENERGY_COST/2\<close> is below 5, \<open>split\<close> returns no
  child and gives the parent back the child's share only: the parent ends with its
  energy before the call minus \<open>SPLIT_ENERGY_COST\<close>, every other field unchanged.
\<close>

theorem split_abort_deducts_cost:
  assumes "energy c / 2 - SPLIT_ENERGY_COST / 2 < 5"
  shows "split d c = (c\<lparr>energy := energy c - SPLIT_ENERGY_COST\<rparr>, None)"
  using assms by (simp add: split_def Let_def SPLIT_ENERGY_COST_def)

theorem split_abort_deducts_cost_witness:
  "energy (sample_cell 100 100 20) / 2 - SPLIT_ENERGY_COST / 2 < 5 \<and>
   split some_split_draws (sample_cell 100 100 20) = (sample_cell 100 100 (- 10), None)"
  using split_abort_deducts_cost [of "sample_cell 100 100 20" some_split_draws]
  by (simp add: sample_cell_def SPLIT_ENERGY_COST_def)

text \<open>
  C1 as stated fails: a cell with energy 20 has post-split energy \<open>-5 < 5\<close>; after the
  aborted \<open>split\<close> its energy is \<open>-10\<close>, not 20.
\<close>

theorem split_refund_counterexample:
  "energy (sample_cell 100 100 20) / 2 - SPLIT_ENERGY_COST / 2 < 5 \<and>
   snd (split some_split_draws (sample_cell 100 100 20)) = None \<and>
   energy (fst (split some_split_draws (sample_cell 100 100 20))) = - 10 \<and>
   energy (fst (split some_split_draws (sample_cell 100 100 20)))
     \<noteq> energy (sample_cell 100 100 20)"
  by (simp add: split_def Let_def sample_cell_def SPLIT_ENERGY_COST_def)

text \<open>
  C5: \<open>split\<close> on a cell with energy exactly \<open>SPLIT_ENERGY_THRESHOLD\<close> (60, cost 30)
  returns a child with energy 15 and leaves the parent with energy 15.
\<close>

theorem split_at_threshold:
  assumes "energy c = SPLIT_ENERGY_THRESHOLD"
  shows "\<exists>child. split d c = (c\<lparr>energy := 15\<rparr>, Some child) \<and> energy child = 15"
  using assms
  by (simp add: split_def Let_def SPLIT_ENERGY_COST_def SPLIT_ENERGY_THRESHOLD_def Cell_def)

theorem split_at_threshold_witness:
  "energy (sample_cell 100 100 60) = SPLIT_ENERGY_THRESHOLD \<and>
   (\<exists>child. split some_split_draws (sample_cell 100 100 60)
              = (sample_cell 100 100 15, Some child) \<and> energy child = 15)"
  using split_at_threshold [of "sample_cell 100 100 60" some_split_draws]
  by (simp add: sample_cell_def SPLIT_ENERGY_THRESHOLD_def)

text \<open>
  C9: whenever \<open>split\<close> returns a child, the child's energy equals the parent's energy
  after the call, both are \<open>energy/2 - SPLIT_ENERGY_COST/2\<close>, and that value is at least 5
  (so \<open>max(5, child_energy)\<close> leaves it unchanged).
\<close>

theorem split_child_energy_eq_parent:
  assumes "split d c = (c', Some child)"
  shows "energy child = energy c' \<and>
         energy c' = energy c / 2 - SPLIT_ENERGY_COST / 2 \<and>
         5 \<le> energy c'"
  using assms
  by (auto simp add: split_def Let_def SPLIT_ENERGY_COST_def Cell_def split: if_splits)

theorem split_child_energy_eq_parent_witness:
  "split some_split_draws (sample_cell 100 100 65)
     = (sample_cell 100 100 17.5,
        Some (Cell 103 96 (Some 9) child_draws
                \<lparr>energy := 17.5, color := (105, 145, 200)\<rparr>)) \<and>
   energy (Cell 103 96 (Some 9) child_draws\<lparr>energy := 17.5, color := (105, 145, 200)\<rparr>)
     = energy (sample_cell 100 100 17.5) \<and>
   energy (sample_cell 100 100 17.5) = energy (sample_cell 100 100 65) / 2
                                        - SPLIT_ENERGY_COST / 2 \<and>
   5 \<le> energy (sample_cell 100 100 17.5)"
proof -
  have h: "split some_split_draws (sample_cell 100 100 65)
             = (sample_cell 100 100 17.5,
                Some (Cell 103 96 (Some 9) child_draws
                        \<lparr>energy := 17.5, color := (105, 145, 200)\<rparr>))"
    by (simp add: split_def Let_def sample_cell_def some_split_draws_def
          SPLIT_ENERGY_COST_def CELL_MIN_RADIUS_def py_int_def jitter_def)
  show ?thesis
    using h split_child_energy_eq_parent [OF h] by simp
qed

section \<open>Properties of Cell.update\<close>

lemma bounce_bounds:
  "margin \<le> cell_x (bounce d c) \<and> cell_x (bounce d c) \<le> WIDTH - margin \<and>
   margin \<le> cell_y (bounce d c) \<and> cell_y (bounce d c) \<le> HEIGHT - margin"
  by (simp add: bounce_def Let_def config_defs)

lemma bounce_fields:
  "radius (bounce d c) = radius c" "base_radius (bounce d c) = base_radius c"
  "speed (bounce d c) = speed c" "color (bounce d c) = color c"
  "time_offset (bounce d c) = time_offset c" "energy (bounce d c) = energy c"
  by (simp_all add: bounce_def Let_def)

lemma move_fields:
  "radius (move c) = radius c" "base_radius (move c) = base_radius c"
  "speed (move c) = speed c" "color (move c) = color c"
  "time_offset (move c) = time_offset c" "energy (move c) = energy c"
  "angle (move c) = angle c"
  by (simp_all add: move_def Let_def)

lemma steer_fields:
  "radius (steer t d c) = radius c" "base_radius (steer t d c) = base_radius c"
  "speed (steer t d c) = speed c" "color (steer t d c) = color c"
  "time_offset (steer t d c) = time_offset c" "energy (steer t d c) = energy c"
  by (simp_all add: steer_def Let_def split: option.splits)

lemma decay_fields:
  "radius (decay dt c) = radius c" "base_radius (decay dt c) = base_radius c"
  "speed (decay dt c) = speed c" "color (decay dt c) = color c"
  "time_offset (decay dt c) = time_offset c" "angle (decay dt c) = angle c"
  "energy (decay dt c) = min MAX_ENERGY (energy c - ENERGY_LOSS_PER_SEC * dt)"
  by (simp_all add: decay_def Let_def)

lemma record_trail_fields:
  "radius (record_trail c) = radius c" "base_radius (record_trail c) = base_radius c"
  "speed (record_trail c) = speed c" "color (record_trail c) = color c"
  "time_offset (record_trail c) = time_offset c" "energy (record_trail c) = energy c"
  "angle (record_trail c) = angle c" "cell_x (record_trail c) = cell_x c"
  "cell_y (record_trail c) = cell_y c"
  by (simp_all add: record_trail_def)

lemma reposition_fields:
  "radius (reposition dt fs d c) = radius c"
  "base_radius (reposition dt fs d c) = base_radius c"
  "speed (reposition dt fs d c) = speed c"
  "color (reposition dt fs d c) = color c"
  "time_offset (reposition dt fs d c) = time_offset c"
  "energy (reposition dt fs d c) = min MAX_ENERGY (energy c - ENERGY_LOSS_PER_SEC * dt)"
  by (simp_all add: reposition_def Let_def record_trail_fields bounce_fields move_fields
        steer_fields decay_fields)

lemma update_position:
  "cell_x (fst (update dt fs d c)) =
     cell_x (bounce d (move (steer (find_target (decay dt c) fs) d (decay dt c))))"
  "cell_y (fst (update dt fs d c)) =
     cell_y (bounce d (move (steer (find_target (decay dt c) fs) d (decay dt c))))"
  by (simp_all add: update_def reposition_def record_trail_def Let_def split: option.splits)

text \<open>
  C7: after \<open>Cell.update\<close> the position satisfies \<open>margin \<le> x \<le> WIDTH - margin\<close> and
  \<open>margin \<le> y \<le> HEIGHT - margin\<close>, for every cell, food list, elapsed time and draws.
\<close>

theorem update_within_bounds:
  "margin \<le> cell_x (fst (update dt fs d c)) \<and>
   cell_x (fst (update dt fs d c)) \<le> WIDTH - margin \<and>
   margin \<le> cell_y (fst (update dt fs d c)) \<and>
   cell_y (fst (update dt fs d c)) \<le> HEIGHT - margin"
  unfolding update_position by (rule bounce_bounds)

text \<open>
  C10: \<open>Cell.update\<close> leaves radius, base\_radius, speed, color and the breathing time
  offset as they were, for every input.
\<close>

theorem update_frame:
  "radius (fst (update dt fs d c)) = radius c \<and>
   base_radius (fst (update dt fs d c)) = base_radius c \<and>
   speed (fst (update dt fs d c)) = speed c \<and>
   color (fst (update dt fs d c)) = color c \<and>
   time_offset (fst (update dt fs d c)) = time_offset c"
  by (simp add: update_def Let_def reposition_fields split: option.splits)

subsection \<open>A cell at the energy cap that eats\<close>

lemma py_fmod_pi: "py_fmod pi (2 * pi) = pi"
  by (simp add: py_fmod_def)

lemma full_decay:
  "decay 0.016 (sample_cell 100 100 100) = sample_cell 100 100 99.984"
  by (simp add: decay_def sample_cell_def Let_def config_defs)

lemma full_target:
  "find_target (sample_cell 100 100 99.984) [Food 101 100] = Some (Food 101 100)"
  by (simp add: find_target_def sample_cell_def Food_def Let_def config_defs)

lemma full_steer:
  "steer (Some (Food 101 100)) mid_draws (sample_cell 100 100 99.984)
     = sample_cell 100 100 99.984"
  by (simp add: steer_def sample_cell_def Food_def Let_def atan2_def py_fmod_pi
        CELL_MAX_TURN_def)

lemma full_move: "move (sample_cell 100 100 99.984) = sample_cell 101 100 99.984"
  by (simp add: move_def sample_cell_def Let_def)

lemma full_bounce: "bounce mid_draws (sample_cell 101 100 99.984) = sample_cell 101 100 99.984"
  by (simp add: bounce_def sample_cell_def Let_def config_defs)

lemma full_reposition:
  "reposition 0.016 [Food 101 100] mid_draws (sample_cell 100 100 100)
     = (sample_cell 101 100 99.984)\<lparr>trail := [(101, 100)]\<rparr>"
  unfolding reposition_def Let_def full_decay full_target full_steer full_move full_bounce
  by (simp add: record_trail_def trail_append_def sample_cell_def)

lemma full_eat:
  "eat_scan ((sample_cell 101 100 99.984)\<lparr>trail := [(101, 100)]\<rparr>) [Food 101 100] = Some []"
  by (simp add: in_eating_range_def sample_cell_def Food_def FOOD_RADIUS_def)

lemma full_update:
  "update 0.016 [Food 101 100] mid_draws (sample_cell 100 100 100)
     = ((sample_cell 101 100 119.984)\<lparr>trail := [(101, 100)]\<rparr>, [], Some Ate)"
  unfolding update_def Let_def full_reposition full_eat
  by (simp add: sample_cell_def ENERGY_FROM_FOOD_def)

lemma mid_draws_in_range: "draws_in_range mid_draws"
  by (simp add: draws_in_range_def mid_draws_def)

text \<open>
  C2 (as amended): when \<open>Cell.update\<close> returns no signal the energy is at most
  \<open>MAX_ENERGY\<close>; when it returns \<open>"ate"\<close> the energy is at most
  \<open>MAX_ENERGY + ENERGY_FROM_FOOD\<close>, the clamp being applied before the meal.
\<close>

theorem update_energy_bound:
  "case update dt fs d c of (c', fs', r) \<Rightarrow>
     (r = None \<longrightarrow> energy c' \<le> MAX_ENERGY) \<and>
     (r = Some Ate \<longrightarrow> energy c' \<le> MAX_ENERGY + ENERGY_FROM_FOOD)"
  by (simp add: update_def Let_def reposition_fields split: option.splits)

theorem update_energy_bound_witness:
  "snd (snd (update 0.016 [Food 101 100] mid_draws (sample_cell 100 100 100))) = Some Ate \<and>
   energy (fst (update 0.016 [Food 101 100] mid_draws (sample_cell 100 100 100)))
     \<le> MAX_ENERGY + ENERGY_FROM_FOOD"
  using update_energy_bound [of "0.016" "[Food 101 100]" mid_draws "sample_cell 100 100 100"]
  unfolding full_update
  by (simp add: sample_cell_def MAX_ENERGY_def ENERGY_FROM_FOOD_def)

text \<open>
  C2 as stated fails: a cell with energy 100 that eats during a tick of 16 ms leaves
  \<open>Cell.update\<close> with energy 119.984, above \<open>MAX_ENERGY\<close>.
\<close>

theorem update_energy_clamp_counterexample:
  "draws_in_range mid_draws \<and>
   snd (snd (update 0.016 [Food 101 100] mid_draws (sample_cell 100 100 100))) = Some Ate \<and>
   energy (fst (update 0.016 [Food 101 100] mid_draws (sample_cell 100 100 100))) = 119.984 \<and>
   \<not> energy (fst (update 0.016 [Food 101 100] mid_draws (sample_cell 100 100 100)))
       \<le> MAX_ENERGY"
  unfolding full_update
  by (simp add: mid_draws_in_range sample_cell_def MAX_ENERGY_def)

section \<open>Steering\<close>






subsection \<open>A target directly behind the cell\<close>







subsection \<open>A cell at the right wall\<close>








section \<open>Spawning food\<close>

text \<open>
  C3 (as amended): every food-spawn request adds food whatever the current food count is:
  a left click appends exactly one food item at the click position and the F key appends
  exactly ten items after the existing ones; \<open>MAX_FOOD\<close> is not consulted.
\<close>

theorem spawn_food_unbounded:
  "foods (handle_event d (MOUSEBUTTONDOWN 1 mx my) w) = foods w @ [Food mx my] \<and>
   length (foods (handle_event d (MOUSEBUTTONDOWN 1 mx my) w)) = length (foods w) + 1 \<and>
   take (length (foods w)) (foods (handle_event d (KEYDOWN K_f) w)) = foods w \<and>
   length (foods (handle_event d (KEYDOWN K_f) w)) = length (foods w) + 10"
  by simp

text \<open>
  C3 as stated fails: with 201 food items, more than \<open>MAX_FOOD\<close>, a click leaves 202
  items and the F key leaves 211.
\<close>

theorem spawn_food_limit_counterexample:
  "length (foods crowded_world) > MAX_FOOD \<and>
   length (foods (handle_event some_event_draws (MOUSEBUTTONDOWN 1 10 10) crowded_world))
     = 202 \<and>
   length (foods (handle_event some_event_draws (KEYDOWN K_f) crowded_world)) = 211"
  by (simp add: crowded_world_def MAX_FOOD_def)

section \<open>Eating: one update\<close>




section \<open>The two-phase update of a tick\<close>


















subsection \<open>A tick with one birth and one death\<close>











section \<open>Eating within one pass\<close>



























subsection \<open>Three cells in a lane, one food item\<close>







subsection \<open>Two cells, three food items\<close>








subsection \<open>A far cell, then two cells at one food item\<close>







end
